theory Spec2Isabelle
  imports Main
begin

section \<open>Python values and exceptions\<close>

text \<open>
  Python strings are modelled as \<open>string\<close> (lists of 8-bit characters), so the model
  covers index names whose code points are below 256. In that range the regular
  expression class \<open>\d\<close> is exactly \<open>0-9\<close>.

  The exceptions of \<open>elasticsearch.exceptions\<close> that the source distinguishes are
  \<open>NotFoundError\<close> and \<open>AuthorizationException\<close>; every other failure of a backend
  request (time-out, refused connection, other status codes) is \<open>TransportError\<close>.
\<close>

datatype es_error = NotFoundError | AuthorizationException | TransportError

datatype exn = AssertionError | ValueError | AttributeError | KeyError | EsError es_error

section \<open>The index prefix pattern\<close>

text \<open>
  \<^verbatim>\<open>VALID_INDEX_PATTERN = r"^((?!\.$|\.\.$|[-_+])([^A-Z:\/*?\"<>|,# ]){1,255})$"\<close>

  \<open>re.match\<close> anchors the pattern at the start of the string. Without the MULTILINE
  flag, \<open>$\<close> matches at the end of the string and also just before a newline that is
  the last character of the string.
\<close>

definition newline :: char where
  "newline = CHR 0x0A"

definition dollar :: "string \<Rightarrow> bool" where
  "dollar s = (s = [] \<or> s = [newline])"

text \<open>The alternation inside the negative lookahead: \<open>\.$\<close>, \<open>\.\.$\<close>, \<open>[-_+]\<close>.\<close>

definition lookahead :: "string \<Rightarrow> bool" where
  "lookahead s =
     (case s of
        [] \<Rightarrow> False
      | c # r \<Rightarrow>
          (c = CHR ''.'' \<and> dollar r)
          \<or> (c = CHR ''.'' \<and> (case r of [] \<Rightarrow> False | c' # r' \<Rightarrow> c' = CHR ''.'' \<and> dollar r'))
          \<or> c \<in> {CHR ''-'', CHR ''_'', CHR ''+''})"

text \<open>The character class \<open>[^A-Z:\/*?\"<>|,# ]\<close>; it admits the newline.\<close>

definition char_class :: "char \<Rightarrow> bool" where
  "char_class c =
     (\<not> (65 \<le> (of_char c :: nat) \<and> (of_char c :: nat) \<le> 90)
      \<and> c \<notin> {CHR '':'', CHR ''/'', CHR ''*'', CHR ''?'', CHR 0x22, CHR ''<'', CHR ''>'',
               CHR ''|'', CHR '','', CHR ''#'', CHR '' ''})"

text \<open>
  \<open>repeat_class k s\<close>: at most \<open>k\<close> further repetitions of the class, then \<open>$\<close>.
  The repetition is greedy (one more character is tried first, then \<open>$\<close>); whether a
  match exists does not depend on that order.
\<close>

fun repeat_class :: "nat \<Rightarrow> string \<Rightarrow> bool" where
  "repeat_class 0 s = dollar s"
| "repeat_class (Suc k) s =
     ((case s of [] \<Rightarrow> False | c # r \<Rightarrow> char_class c \<and> repeat_class k r) \<or> dollar s)"

text \<open>\<open>re.match(VALID_INDEX_PATTERN, prefix) is not None\<close>\<close>

definition valid_index_prefix :: "string \<Rightarrow> bool" where
  "valid_index_prefix prefix =
     (\<not> lookahead prefix
      \<and> (case prefix of [] \<Rightarrow> False | c # r \<Rightarrow> char_class c \<and> repeat_class 254 r))"

section \<open>Dates\<close>

text \<open>
  A naive \<open>datetime.datetime\<close>. The constructor accepts years 1 to 9999 and raises
  \<open>ValueError\<close> for a day that the month does not have.
\<close>

record datetime =
  year :: nat
  month :: nat
  day :: nat
  hour :: nat
  minute :: nat
  second :: nat
  microsecond :: nat

definition is_leap :: "nat \<Rightarrow> bool" where
  "is_leap y = (y mod 4 = 0 \<and> (y mod 100 \<noteq> 0 \<or> y mod 400 = 0))"

definition days_in_month :: "nat \<Rightarrow> nat \<Rightarrow> nat" where
  "days_in_month y m =
     (if m = 2 then (if is_leap y then 29 else 28)
      else if m \<in> {4, 6, 9, 11} then 30 else 31)"

definition valid_date :: "nat \<Rightarrow> nat \<Rightarrow> nat \<Rightarrow> bool" where
  "valid_date y m d =
     (1 \<le> y \<and> y \<le> 9999 \<and> 1 \<le> m \<and> m \<le> 12 \<and> 1 \<le> d \<and> d \<le> days_in_month y m)"

definition midnight :: "nat \<Rightarrow> nat \<Rightarrow> nat \<Rightarrow> datetime" where
  "midnight y m d =
     \<lparr>year = y, month = m, day = d, hour = 0, minute = 0, second = 0, microsecond = 0\<rparr>"

definition days_before_year :: "nat \<Rightarrow> int" where
  "days_before_year y =
     (let p = int y - 1 in p * 365 + p div 4 - p div 100 + p div 400)"

definition days_before_month :: "nat \<Rightarrow> nat \<Rightarrow> int" where
  "days_before_month y m = int (sum_list (map (days_in_month y) [1..<m]))"

definition toordinal :: "datetime \<Rightarrow> int" where
  "toordinal dt = days_before_year (year dt) + days_before_month (year dt) (month dt) + int (day dt)"

text \<open>
  The position of a naive datetime on the time line, in microseconds. Comparison of
  two naive datetimes (\<open><\<close>) orders them by that position, and their difference is
  the \<open>timedelta\<close> between the positions; a \<open>timedelta\<close> is modelled by its total
  number of microseconds, which is what its comparison orders.
\<close>

definition datetime_us :: "datetime \<Rightarrow> int" where
  "datetime_us dt =
     ((toordinal dt * 24 + int (hour dt)) * 60 + int (minute dt)) * 60 * 1000000
       + int (second dt) * 1000000 + int (microsecond dt)"

type_synonym timedelta = int

definition timedelta_days :: "int \<Rightarrow> timedelta" where
  "timedelta_days n = n * 86400 * 1000000"

definition datetime_lt :: "datetime \<Rightarrow> datetime \<Rightarrow> bool" where
  "datetime_lt a b = (datetime_us a < datetime_us b)"

definition datetime_sub :: "datetime \<Rightarrow> datetime \<Rightarrow> timedelta" where
  "datetime_sub a b = datetime_us a - datetime_us b"

subsection \<open>\<open>strftime\<close> with \<open>INDEX_DATE_FORMAT = "%Y-%m-%d"\<close>\<close>

definition digit_char :: "nat \<Rightarrow> char" where
  "digit_char n = ''0123456789'' ! n"

text \<open>\<open>%m\<close> and \<open>%d\<close>: two decimal digits, for a number below 100.\<close>

definition pad2 :: "nat \<Rightarrow> string" where
  "pad2 n = [digit_char (n div 10), digit_char (n mod 10)]"

text \<open>Four decimal digits, for a number below 10000.\<close>

definition pad4 :: "nat \<Rightarrow> string" where
  "pad4 n = [digit_char (n div 1000), digit_char (n div 100 mod 10),
             digit_char (n div 10 mod 10), digit_char (n mod 10)]"

fun decimal :: "nat \<Rightarrow> string" where
  "decimal n = (if n < 10 then [digit_char n] else decimal (n div 10) @ [digit_char (n mod 10)])"

text \<open>
  \<open>%Y\<close> is formatted by the platform's C library: some (and CPython from 3.13 on)
  pad the year with zeros to four digits, glibc under earlier CPython versions prints
  the plain decimal number. The flag \<open>zero_pad\<close> says which one the platform does;
  the two agree for years from 1000 on.
\<close>

definition strftime_Y :: "bool \<Rightarrow> nat \<Rightarrow> string" where
  "strftime_Y zero_pad y = (if zero_pad then pad4 y else decimal y)"

definition strftime :: "bool \<Rightarrow> datetime \<Rightarrow> string" where
  "strftime zero_pad dt =
     strftime_Y zero_pad (year dt) @ ''-'' @ pad2 (month dt) @ ''-'' @ pad2 (day dt)"

subsection \<open>\<open>strptime\<close> with \<open>INDEX_DATE_FORMAT\<close>\<close>

text \<open>
  \<open>_strptime\<close> compiles the format into the regular expression
  \<^verbatim>\<open>(?P<Y>\d\d\d\d)-(?P<m>1[0-2]|0[1-9]|[1-9])-(?P<d>3[0-1]|[1-2]\d|0[1-9]|[1-9]| [1-9])\<close>
  and matches it at the start of the string. A regular expression is modelled by the
  list of its matches in the order in which backtracking finds them, each match being
  the text it consumed and the rest of the input.
\<close>

type_synonym regex = "string \<Rightarrow> (string \<times> string) list"

definition re_one :: "(char \<Rightarrow> bool) \<Rightarrow> regex" where
  "re_one P s = (case s of [] \<Rightarrow> [] | c # r \<Rightarrow> if P c then [([c], r)] else [])"

definition re_seq :: "regex \<Rightarrow> regex \<Rightarrow> regex" where
  "re_seq p q s = concat (map (\<lambda>(a, r). map (\<lambda>(b, r'). (a @ b, r')) (q r)) (p s))"

definition re_alt :: "regex \<Rightarrow> regex \<Rightarrow> regex" where
  "re_alt p q s = p s @ q s"

definition re_lit :: "char \<Rightarrow> regex" where
  "re_lit c = re_one (\<lambda>x. x = c)"

definition re_range :: "nat \<Rightarrow> nat \<Rightarrow> regex" where
  "re_range lo hi = re_one (\<lambda>x. 48 + lo \<le> (of_char x :: nat) \<and> (of_char x :: nat) \<le> 48 + hi)"

definition re_Y :: regex where
  "re_Y = re_seq (re_range 0 9) (re_seq (re_range 0 9) (re_seq (re_range 0 9) (re_range 0 9)))"

definition re_m :: regex where
  "re_m = re_alt (re_seq (re_lit CHR ''1'') (re_range 0 2))
            (re_alt (re_seq (re_lit CHR ''0'') (re_range 1 9))
               (re_range 1 9))"

definition re_d :: regex where
  "re_d = re_alt (re_seq (re_lit CHR ''3'') (re_range 0 1))
            (re_alt (re_seq (re_range 1 2) (re_range 0 9))
               (re_alt (re_seq (re_lit CHR ''0'') (re_range 1 9))
                  (re_alt (re_range 1 9)
                     (re_seq (re_lit CHR '' '') (re_range 1 9)))))"

text \<open>The matches of the whole expression: the three groups and the unconsumed rest.\<close>

definition format_regex :: "string \<Rightarrow> (string \<times> string \<times> string \<times> string) list" where
  "format_regex s =
     concat (map (\<lambda>(y, r1).
       concat (map (\<lambda>(h1, r2).
         concat (map (\<lambda>(m, r3).
           concat (map (\<lambda>(h2, r4).
             map (\<lambda>(d, r5). (y, m, d, r5)) (re_d r4))
           (re_lit CHR ''-'' r3)))
         (re_m r2)))
       (re_lit CHR ''-'' r1)))
     (re_Y s))"

text \<open>
  \<open>int\<close> on the text of a group: decimal digits, after optional leading blanks
  (the last alternative of \<open>%d\<close> captures a blank and a digit).
\<close>

definition py_int :: "string \<Rightarrow> nat" where
  "py_int s =
     foldl (\<lambda>a c. 10 * a + ((of_char c :: nat) - 48)) 0 (dropWhile (\<lambda>c. c = CHR '' '') s)"

text \<open>
  \<open>datetime.strptime(s, INDEX_DATE_FORMAT)\<close>: \<open>ValueError\<close> when the expression does
  not match, when unconverted data remains after the first match, and when the
  numbers are not a date of the calendar.
\<close>

definition strptime :: "string \<Rightarrow> exn + datetime" where
  "strptime s =
     (case format_regex s of
        [] \<Rightarrow> Inl ValueError
      | (y, m, d, rest) # _ \<Rightarrow>
          if rest \<noteq> [] then Inl ValueError
          else if valid_date (py_int y) (py_int m) (py_int d)
               then Inr (midnight (py_int y) (py_int m) (py_int d))
               else Inl ValueError)"

section \<open>Index names\<close>

text \<open>\<open>index.startswith(prefix)\<close>\<close>

definition startswith :: "string \<Rightarrow> string \<Rightarrow> bool" where
  "startswith s p = (take (length p) s = p)"

text \<open>
  \<open>s.split(sep, 1)[-1]\<close>: the text after the first occurrence of \<open>sep\<close>, the whole
  of \<open>s\<close> when there is none; \<open>ValueError\<close> for an empty separator.
\<close>

fun after_first :: "string \<Rightarrow> string \<Rightarrow> string option" where
  "after_first sep [] = None"
| "after_first sep (c # r) =
     (if startswith (c # r) sep then Some (drop (length sep) (c # r)) else after_first sep r)"

definition split_last :: "string \<Rightarrow> string \<Rightarrow> exn + string" where
  "split_last s sep =
     (if sep = [] then Inl ValueError
      else case after_first sep s of None \<Rightarrow> Inr s | Some t \<Rightarrow> Inr t)"

text \<open>
  \<open>ElasticsearchLogs.index_name\<close>; of \<open>self\<close> it reads \<open>_index_prefix\<close> only.
\<close>

definition index_name :: "bool \<Rightarrow> string \<Rightarrow> datetime \<Rightarrow> string" where
  "index_name zero_pad index_prefix dt = index_prefix @ strftime zero_pad dt"

text \<open>
  \<open>ElasticsearchLogs._valid_index_name\<close>. The call of \<open>split\<close> stands outside the
  \<open>try\<close>, so its exception is not caught; \<open>except ValueError\<close> catches that of
  \<open>strptime\<close>.
\<close>

definition valid_index_name :: "string \<Rightarrow> string \<Rightarrow> exn + bool" where
  "valid_index_name index_prefix index =
     (if \<not> valid_index_prefix index then Inr False
      else if \<not> startswith index index_prefix \<or> length index > 255 then Inr False
      else case split_last index index_prefix of
             Inl e \<Rightarrow> Inl e
           | Inr index_dt_str \<Rightarrow>
               (case strptime index_dt_str of
                  Inl ValueError \<Rightarrow> Inr False
                | Inl e \<Rightarrow> Inl e
                | Inr dt \<Rightarrow> Inr True))"

text \<open>
  \<open>ElasticsearchLogs.can_delete_index\<close>; a failed \<open>assert\<close> is \<open>AssertionError\<close>.
\<close>

definition can_delete_index :: "string \<Rightarrow> string \<Rightarrow> datetime \<Rightarrow> exn + bool" where
  "can_delete_index index_prefix index cutoff_date =
     (case valid_index_name index_prefix index of
        Inl e \<Rightarrow> Inl e
      | Inr False \<Rightarrow> Inl AssertionError
      | Inr True \<Rightarrow>
          (case strptime (drop (length index_prefix) index) of
             Inl e \<Rightarrow> Inl e
           | Inr index_dt \<Rightarrow>
               Inr (datetime_lt index_dt cutoff_date
                    \<and> datetime_sub cutoff_date index_dt \<ge> timedelta_days 1)))"

text \<open>
  What \<open>_valid_index_name\<close> writes to the log: \<open>logger.exception\<close> in the handler of
  \<open>ValueError\<close>, and nothing on the other paths.
\<close>

datatype log_record =
    WarnNoHttpAuth
  | ConnectionNotFoundToRemove string
  | InvalidDateFormat string
  | IndicesNotFound string
  | UnauthorizedForIndices string
  | UnauthorizedToDeleteIndex string

definition valid_index_name_log :: "string \<Rightarrow> string \<Rightarrow> log_record list" where
  "valid_index_name_log index_prefix index =
     (if \<not> valid_index_prefix index then []
      else if \<not> startswith index index_prefix \<or> length index > 255 then []
      else case split_last index index_prefix of
             Inl e \<Rightarrow> []
           | Inr index_dt_str \<Rightarrow>
               (case strptime index_dt_str of
                  Inl ValueError \<Rightarrow> [InvalidDateFormat index]
                | Inl e \<Rightarrow> []
                | Inr dt \<Rightarrow> []))"

section \<open>The backend and the state of a manager\<close>

text \<open>
  The Elasticsearch client is an external collaborator. A request is one call of its
  API; the backend answers the \<open>n\<close>-th request of a run with \<open>be n request\<close>, either
  normally (for \<open>indices.get\<close> with the names that are the keys of the returned
  dictionary) or by raising. Theorems hold for every such \<open>be\<close>, that is for every
  behaviour of the backend.
\<close>

type_synonym settings = "(string \<times> string) list"

datatype request =
    GetTemplate string
  | PutTemplate string string settings
  | IndicesGet string
  | IndicesDelete string

datatype response = Ok "string list" | Raise es_error

type_synonym backend = "nat \<Rightarrow> request \<Rightarrow> response"

datatype http_auth = AWS4Auth string string string string | BasicAuth string string

record connection =
  conn_host :: "string option"
  conn_port :: "nat option"
  conn_http_auth :: "http_auth option"
  conn_use_ssl :: bool
  conn_timeout :: nat

text \<open>
  The fields of an \<open>ElasticsearchLogs\<close> instance, followed by the state outside the
  instance that its methods read and write: the connection registry
  \<open>elasticsearch_dsl.connections\<close>, the class attributes of \<open>LogEntry\<close>, the requests
  sent to the backend so far (each with the alias of the connection used and the
  answer received), and the records written to the logger.
\<close>

record es =
  host :: "string option"
  port :: "nat option"
  access_key :: "string option"
  secret_key :: "string option"
  aws_region :: "string option"
  index_prefix :: string
  index_settings :: "settings option"
  use_ssl :: bool
  client :: "connection option"
  initialized :: bool
  conns :: "string \<rightharpoonup> connection"
  LogEntry_index :: "string \<times> settings"
  LogEntry_index_prefix :: "string option"
  LogEntry_initialized :: bool
  requests :: "(string \<times> request \<times> response) list"
  logged :: "log_record list"

definition ELASTICSEARCH_TEMPLATE_CONNECTION_ALIAS :: string where
  "ELASTICSEARCH_TEMPLATE_CONNECTION_ALIAS = ''logentry_template''"

definition INDEX_NAME_PREFIX :: string where
  "INDEX_NAME_PREFIX = ''logentry_''"

definition ELASTICSEARCH_DEFAULT_CONNECTION_TIMEOUT :: nat where
  "ELASTICSEARCH_DEFAULT_CONNECTION_TIMEOUT = 15"

definition ELASTICSEARCH_TEMPLATE_CONNECTION_TIMEOUT :: nat where
  "ELASTICSEARCH_TEMPLATE_CONNECTION_TIMEOUT = 60"

text \<open>
  \<open>ElasticsearchLogs.__init__\<close>, in a process that has opened no connection, sent no
  request and logged nothing yet.
\<close>

definition ElasticsearchLogs ::
  "string option \<Rightarrow> nat option \<Rightarrow> string option \<Rightarrow> string option \<Rightarrow> string option
     \<Rightarrow> settings option \<Rightarrow> bool \<Rightarrow> string \<Rightarrow> es" where
  "ElasticsearchLogs h p ak sk region st ssl prefix =
     \<lparr>host = h, port = p, access_key = ak, secret_key = sk, aws_region = region,
      index_prefix = prefix, index_settings = st, use_ssl = ssl,
      client = None, initialized = False,
      conns = Map.empty,
      LogEntry_index = (''*'', []), LogEntry_index_prefix = None, LogEntry_initialized = False,
      requests = [], logged = []\<rparr>"

text \<open>One request over the connection registered under \<open>using\<close>.\<close>

definition send :: "backend \<Rightarrow> string \<Rightarrow> request \<Rightarrow> es \<Rightarrow> response \<times> es" where
  "send be using rq s =
     (let rs = be (length (requests s)) rq
      in (rs, s\<lparr>requests := requests s @ [(using, rq, rs)]\<rparr>))"

text \<open>
  A call \<open>self._client.indices.f(...)\<close>: \<open>AttributeError\<close> while \<open>_client\<close> is still
  \<open>None\<close>, else the request over the default connection.
\<close>

definition client_call :: "backend \<Rightarrow> request \<Rightarrow> es \<Rightarrow> (exn + string list) \<times> es" where
  "client_call be rq s =
     (case client s of
        None \<Rightarrow> (Inl AttributeError, s)
      | Some c \<Rightarrow>
          (case send be ''default'' rq s of
             (Ok names, s') \<Rightarrow> (Inr names, s')
           | (Raise e, s') \<Rightarrow> (Inl (EsError e), s')))"

subsection \<open>\<open>LogEntry\<close>\<close>

text \<open>
  \<open>LogEntry.create_or_update_template\<close>: \<open>index_template.save(using=...)\<close> looks the
  connection up in the registry (\<open>KeyError\<close> when the alias is not there) and sends
  the template.
\<close>

definition create_or_update_template :: "backend \<Rightarrow> es \<Rightarrow> (exn + unit) \<times> es" where
  "create_or_update_template be s =
     (case LogEntry_index_prefix s of
        None \<Rightarrow> (Inl AttributeError, s)
      | Some prefix \<Rightarrow>
          if prefix = [] then (Inl AssertionError, s)
          else (case conns s ELASTICSEARCH_TEMPLATE_CONNECTION_ALIAS of
                  None \<Rightarrow> (Inl KeyError, s)
                | Some c \<Rightarrow>
                    (case send be ELASTICSEARCH_TEMPLATE_CONNECTION_ALIAS
                            (PutTemplate prefix (fst (LogEntry_index s)) (snd (LogEntry_index s))) s of
                       (Ok names, s') \<Rightarrow> (Inr (), s')
                     | (Raise e, s') \<Rightarrow> (Inl (EsError e), s'))))"

text \<open>\<open>LogEntry.init\<close>\<close>

definition LogEntry_init ::
  "backend \<Rightarrow> string \<Rightarrow> settings option \<Rightarrow> bool \<Rightarrow> es \<Rightarrow> (exn + unit) \<times> es" where
  "LogEntry_init be prefix st skip_template_init s =
     (let s1 = s\<lparr>LogEntry_index := (prefix @ ''*'', case st of None \<Rightarrow> [] | Some x \<Rightarrow> x),
                 LogEntry_index_prefix := Some prefix\<rparr>
      in if \<not> skip_template_init
         then (case create_or_update_template be s1 of
                 (Inl e, s2) \<Rightarrow> (Inl e, s2)
               | (Inr u, s2) \<Rightarrow> (Inr (), s2\<lparr>LogEntry_initialized := True\<rparr>))
         else (Inr (), s1\<lparr>LogEntry_initialized := True\<rparr>))"

subsection \<open>\<open>ElasticsearchLogs._initialize\<close>\<close>

definition http_auth_of :: "string option \<Rightarrow> string option \<Rightarrow> string option \<Rightarrow> http_auth option" where
  "http_auth_of ak sk region =
     (case (ak, sk) of
        (Some a, Some k) \<Rightarrow>
          if a \<noteq> [] \<and> k \<noteq> []
          then (case region of
                  Some r \<Rightarrow> if r \<noteq> [] then Some (AWS4Auth a k r ''es'') else Some (BasicAuth a k)
                | None \<Rightarrow> Some (BasicAuth a k))
          else None
      | _ \<Rightarrow> None)"

text \<open>
  The two calls of \<open>connections.create_connection\<close>: the default connection, kept in
  \<open>_client\<close>, and the connection for the template API with its longer timeout.
\<close>

definition create_connections :: "es \<Rightarrow> es" where
  "create_connections s =
     (let auth = http_auth_of (access_key s) (secret_key s) (aws_region s);
          c = \<lparr>conn_host = host s, conn_port = port s, conn_http_auth = auth,
               conn_use_ssl = use_ssl s, conn_timeout = ELASTICSEARCH_DEFAULT_CONNECTION_TIMEOUT\<rparr>;
          t = c\<lparr>conn_timeout := ELASTICSEARCH_TEMPLATE_CONNECTION_TIMEOUT\<rparr>
      in s\<lparr>logged := logged s @ (if auth = None then [WarnNoHttpAuth] else []),
           client := Some c,
           conns := (conns s)(''default'' \<mapsto> c, ELASTICSEARCH_TEMPLATE_CONNECTION_ALIAS \<mapsto> t)\<rparr>)"

text \<open>
  \<open>ELASTICSEARCH_FORCE_INDEX_TEMPLATE_UPDATE.lower() == "true"\<close>; the value of the
  environment variable is a parameter of the model.
\<close>

definition lower :: "char \<Rightarrow> char" where
  "lower c = (if 65 \<le> (of_char c :: nat) \<and> (of_char c :: nat) \<le> 90
              then char_of ((of_char c :: nat) + 32) else c)"

definition force_template_update :: "string \<Rightarrow> bool" where
  "force_template_update env = (map lower env = ''true'')"

text \<open>The body of the \<open>try\<close> statement together with its \<open>except NotFoundError\<close> clause.\<close>

definition lookup_template :: "string \<Rightarrow> backend \<Rightarrow> es \<Rightarrow> (exn + unit) \<times> es" where
  "lookup_template env be s =
     (case (case client_call be (GetTemplate (index_prefix s)) s of
              (Inl e, s1) \<Rightarrow> (Inl e, s1)
            | (Inr t, s1) \<Rightarrow>
                LogEntry_init be (index_prefix s) (index_settings s)
                  (\<not> force_template_update env) s1) of
        (Inl (EsError NotFoundError), s2) \<Rightarrow>
          LogEntry_init be (index_prefix s) (index_settings s) False s2
      | (r, s2) \<Rightarrow> (r, s2))"

text \<open>\<open>connections.remove_connection\<close>\<close>

definition remove_connection :: "string \<Rightarrow> es \<Rightarrow> (exn + unit) \<times> es" where
  "remove_connection a s =
     (case conns s a of
        None \<Rightarrow> (Inl KeyError, s)
      | Some c \<Rightarrow> (Inr (), s\<lparr>conns := (conns s)(a := None)\<rparr>))"

text \<open>The \<open>finally\<close> clause: its own \<open>try\<close> with \<open>except KeyError\<close>.\<close>

definition release_template_connection :: "es \<Rightarrow> (exn + unit) \<times> es" where
  "release_template_connection s =
     (case remove_connection ELASTICSEARCH_TEMPLATE_CONNECTION_ALIAS s of
        (Inl KeyError, s') \<Rightarrow>
          (Inr (), s'\<lparr>logged := logged s' @
                      [ConnectionNotFoundToRemove ELASTICSEARCH_TEMPLATE_CONNECTION_ALIAS]\<rparr>)
      | (Inl e, s') \<Rightarrow> (Inl e, s')
      | (Inr u, s') \<Rightarrow> (Inr (), s'))"

text \<open>
  What follows the \<open>try\<close> body: the \<open>finally\<close> clause runs whatever the outcome \<open>r\<close> of
  the body was; an exception of the body is raised again after it, and only a normal
  outcome reaches \<open>self._initialized = True\<close>.
\<close>

definition finish_initialize :: "(exn + unit) \<times> es \<Rightarrow> (exn + unit) \<times> es" where
  "finish_initialize body =
     (case release_template_connection (snd body) of
        (Inl e, s') \<Rightarrow> (Inl e, s')
      | (Inr u, s') \<Rightarrow>
          (case fst body of
             Inl e \<Rightarrow> (Inl e, s')
           | Inr v \<Rightarrow> (Inr (), s'\<lparr>initialized := True\<rparr>)))"

definition initialize :: "string \<Rightarrow> backend \<Rightarrow> es \<Rightarrow> (exn + unit) \<times> es" where
  "initialize env be s =
     (if \<not> initialized s
      then finish_initialize (lookup_template env be (create_connections s))
      else (Inr (), s))"

subsection \<open>The operations on indices\<close>

definition index_exists :: "backend \<Rightarrow> string \<Rightarrow> es \<Rightarrow> (exn + bool) \<times> es" where
  "index_exists be index s =
     (case client_call be (IndicesGet index) s of
        (Inl (EsError NotFoundError), s') \<Rightarrow> (Inr False, s')
      | (Inl e, s') \<Rightarrow> (Inl e, s')
      | (Inr names, s') \<Rightarrow> (Inr (index \<in> set names), s'))"

text \<open>The result \<open>None\<close> of Python is \<open>None\<close>, a list \<open>xs\<close> is \<open>Some xs\<close>.\<close>

definition list_indices :: "string \<Rightarrow> backend \<Rightarrow> es \<Rightarrow> (exn + string list option) \<times> es" where
  "list_indices env be s =
     (case initialize env be s of
        (Inl e, s1) \<Rightarrow> (Inl e, s1)
      | (Inr u, s1) \<Rightarrow>
          (case client_call be (IndicesGet (index_prefix s1 @ ''*'')) s1 of
             (Inl (EsError NotFoundError), s2) \<Rightarrow>
               (Inr (Some []), s2\<lparr>logged := logged s2 @ [IndicesNotFound (index_prefix s2)]\<rparr>)
           | (Inl (EsError AuthorizationException), s2) \<Rightarrow>
               (Inr None, s2\<lparr>logged := logged s2 @ [UnauthorizedForIndices (index_prefix s2)]\<rparr>)
           | (Inl e, s2) \<Rightarrow> (Inl e, s2)
           | (Inr names, s2) \<Rightarrow> (Inr (Some names), s2)))"

text \<open>The result is \<open>Some index\<close> for the returned name and \<open>None\<close> for Python's \<open>None\<close>.\<close>

definition delete_index :: "string \<Rightarrow> backend \<Rightarrow> string \<Rightarrow> es \<Rightarrow> (exn + string option) \<times> es" where
  "delete_index env be index s =
     (case initialize env be s of
        (Inl e, s1) \<Rightarrow> (Inl e, s1)
      | (Inr u, s1) \<Rightarrow>
          (let s2 = s1\<lparr>logged := logged s1 @ valid_index_name_log (index_prefix s1) index\<rparr>
           in case valid_index_name (index_prefix s1) index of
                Inl e \<Rightarrow> (Inl e, s2)
              | Inr False \<Rightarrow> (Inl AssertionError, s2)
              | Inr True \<Rightarrow>
                  (case client_call be (IndicesDelete index) s2 of
                     (Inl (EsError NotFoundError), s3) \<Rightarrow>
                       (Inr None, s3\<lparr>logged := logged s3 @ [IndicesNotFound index]\<rparr>)
                   | (Inl (EsError AuthorizationException), s3) \<Rightarrow>
                       (Inr None, s3\<lparr>logged := logged s3 @ [UnauthorizedToDeleteIndex index]\<rparr>)
                   | (Inl e, s3) \<Rightarrow> (Inl e, s3)
                   | (Inr names, s3) \<Rightarrow> (Inr (Some index), s3))))"

text \<open>\<open>configure_es\<close>\<close>

definition configure_es ::
  "string \<Rightarrow> backend \<Rightarrow> string option \<Rightarrow> nat option \<Rightarrow> string option \<Rightarrow> string option
     \<Rightarrow> string option \<Rightarrow> string option \<Rightarrow> bool \<Rightarrow> settings option \<Rightarrow> (exn + unit) \<times> es" where
  "configure_es env be h p ak sk region prefix ssl st =
     initialize env be
       (ElasticsearchLogs h p ak sk region st ssl
          (case prefix of None \<Rightarrow> INDEX_NAME_PREFIX
           | Some x \<Rightarrow> if x = [] then INDEX_NAME_PREFIX else x))"

subsection \<open>Sequences of calls on one instance\<close>

text \<open>
  A caller may call the methods in any order and carry on with the instance after a
  call has raised.
\<close>

datatype call = Initialize | ListIndices | DeleteIndex string | IndexExists string

fun step :: "string \<Rightarrow> backend \<Rightarrow> call \<Rightarrow> es \<Rightarrow> es" where
  "step env be Initialize s = snd (initialize env be s)"
| "step env be ListIndices s = snd (list_indices env be s)"
| "step env be (DeleteIndex index) s = snd (delete_index env be index s)"
| "step env be (IndexExists index) s = snd (index_exists be index s)"

fun run :: "string \<Rightarrow> backend \<Rightarrow> call list \<Rightarrow> es \<Rightarrow> es" where
  "run env be [] s = s"
| "run env be (c # cs) s = run env be cs (step env be c s)"

text \<open>The template registrations that the backend has acknowledged, and all that were sent.\<close>

definition registrations :: "es \<Rightarrow> (string \<times> request \<times> response) list" where
  "registrations s =
     filter (\<lambda>(using, rq, rs).
        (case rq of PutTemplate n p st \<Rightarrow> (case rs of Ok names \<Rightarrow> True | Raise e \<Rightarrow> False)
         | _ \<Rightarrow> False)) (requests s)"

definition deletions :: "es \<Rightarrow> string list" where
  "deletions s =
     concat (map (\<lambda>(using, rq, rs). (case rq of IndicesDelete n \<Rightarrow> [n] | _ \<Rightarrow> [])) (requests s))"

section \<open>Properties of the prefix pattern and of index names\<close>

lemma char_class_newline: "char_class newline"
  by (simp add: char_class_def newline_def)

lemma dollar_iff: "dollar s \<longleftrightarrow> s = [] \<or> s = [newline]"
  by (simp add: dollar_def)

lemma repeat_class_iff:
  "repeat_class k s \<longleftrightarrow>
     list_all char_class s \<and> (length s \<le> k \<or> (length s = Suc k \<and> last s = newline))"
proof (induction k arbitrary: s)
  case 0
  show ?case
    by (cases s) (auto simp: dollar_def char_class_newline)
next
  case (Suc k)
  show ?case
  proof (cases s)
    case Nil
    then show ?thesis by (simp add: dollar_def)
  next
    case (Cons c r)
    show ?thesis
      unfolding Cons
      by (cases r) (auto simp: Suc dollar_def char_class_newline)
  qed
qed

lemma valid_index_prefix_iff:
  "valid_index_prefix s \<longleftrightarrow>
     \<not> lookahead s \<and> s \<noteq> [] \<and> list_all char_class s
     \<and> (length s \<le> 255 \<or> (length s = 256 \<and> last s = newline))"
proof (cases s)
  case Nil
  then show ?thesis by (simp add: valid_index_prefix_def)
next
  case (Cons c r)
  show ?thesis
    unfolding Cons valid_index_prefix_def
    by (cases r) (auto simp: repeat_class_iff)
qed

lemma lookahead_iff:
  "lookahead s \<longleftrightarrow>
     s = ''.'' \<or> s = ''.'' @ [newline] \<or> s = ''..'' \<or> s = ''..'' @ [newline]
     \<or> (s \<noteq> [] \<and> hd s \<in> {CHR ''-'', CHR ''_'', CHR ''+''})"
  by (auto simp: lookahead_def dollar_def split: list.splits)

lemma lookahead_append:
  assumes "\<not> lookahead p" "p \<noteq> []" "t \<noteq> []" "last t \<noteq> newline"
  shows "\<not> lookahead (p @ t)"
proof -
  from assms(2) obtain c r where p: "p = c # r" by (cases p) auto
  from assms(3) obtain t' x where t: "t = t' @ [x]" by (cases t rule: rev_cases) auto
  with assms(4) have x: "x \<noteq> newline" by simp
  show ?thesis
    using assms(1) x unfolding p t
    by (cases r; cases t') (auto simp: lookahead_def dollar_def newline_def split: list.splits)
qed

lemma valid_index_prefix_append:
  assumes "valid_index_prefix p" "list_all char_class t" "t \<noteq> []" "last t \<noteq> newline"
    "length p + length t \<le> 255"
  shows "valid_index_prefix (p @ t)"
  using assms lookahead_append[of p t]
  by (auto simp: valid_index_prefix_iff)

lemma split_last_append: "p \<noteq> [] \<Longrightarrow> split_last (p @ t) p = Inr t"
  by (cases p) (auto simp: split_last_def startswith_def)

lemma strptime_error: "strptime s = Inl e \<Longrightarrow> e = ValueError"
  by (auto simp: strptime_def split: list.splits if_splits prod.splits)

lemma valid_index_name_total: "p \<noteq> [] \<Longrightarrow> \<exists>b. valid_index_name p index = Inr b"
  by (auto simp: valid_index_name_def split_last_def split: option.splits sum.splits exn.splits dest: strptime_error)

lemma valid_index_name_append:
  assumes "valid_index_prefix p" "list_all char_class t" "t \<noteq> []" "last t \<noteq> newline"
    "length p + length t \<le> 255"
  shows "valid_index_name p (p @ t) = Inr (isl (strptime t) = False)"
proof -
  have ne: "p \<noteq> []" using assms(1) by (auto simp: valid_index_prefix_iff)
  have v: "valid_index_prefix (p @ t)" using assms by (rule valid_index_prefix_append)
  show ?thesis
    using v assms(5) ne
    by (auto simp: valid_index_name_def split_last_append startswith_def split: sum.splits exn.splits dest: strptime_error)
qed

section \<open>Formatting and parsing dates\<close>

declare decimal.simps [simp del]

lemma digit_cases: "n < 10 \<Longrightarrow> n \<in> {0, 1, 2, 3, 4, 5, 6, 7, 8, 9::nat}"
  by auto

lemma of_char_digit_char: "n < 10 \<Longrightarrow> (of_char (digit_char n) :: nat) = 48 + n"
  by (drule digit_cases) (auto simp: digit_char_def)

lemma char_class_digit_char: "n < 10 \<Longrightarrow> char_class (digit_char n)"
  by (drule digit_cases) (auto simp: digit_char_def char_class_def)

lemma digit_char_not_newline: "n < 10 \<Longrightarrow> digit_char n \<noteq> newline"
  by (drule digit_cases) (auto simp: digit_char_def newline_def)

lemma digit_char_not_space: "n < 10 \<Longrightarrow> digit_char n \<noteq> CHR '' ''"
  by (drule digit_cases) (auto simp: digit_char_def)

lemma char_eq_code: "(x = c) = ((of_char x :: nat) = of_char c)"
  by auto

lemma re_lit_as_range:
  "re_lit CHR ''0'' = re_range 0 0" "re_lit CHR ''1'' = re_range 1 1" "re_lit CHR ''3'' = re_range 3 3"
  by (rule ext, simp add: re_lit_def re_range_def, subst char_eq_code, rule arg_cong[where f = "\<lambda>P. re_one P _"], auto)+

lemma re_range_digit:
  "n < 10 \<Longrightarrow> re_range lo hi (digit_char n # r) = (if lo \<le> n \<and> n \<le> hi then [([digit_char n], r)] else [])"
  by (simp add: re_range_def re_one_def of_char_digit_char)

lemma re_lit_hyphen: "re_lit CHR ''-'' (CHR ''-'' # r) = [(''-'', r)]"
  by (simp add: re_lit_def re_one_def)

lemma re_range_any_digit: "n < 10 \<Longrightarrow> re_range 0 9 (digit_char n # r) = [([digit_char n], r)]"
  by (simp add: re_range_digit)

lemma re_Y_pad4: "y < 10000 \<Longrightarrow> re_Y (pad4 y @ r) = [(pad4 y, r)]"
proof -
  assume "y < 10000"
  then have "y div 1000 < 10" "y div 100 mod 10 < 10" "y div 10 mod 10 < 10" "y mod 10 < 10"
    by auto
  then show ?thesis
    by (simp add: re_Y_def pad4_def re_seq_def re_range_any_digit)
qed

lemma re_m_pad2:
  assumes "1 \<le> m" "m \<le> 12"
  shows "\<exists>rest. re_m (pad2 m @ r) = (pad2 m, r) # rest"
proof (cases "m < 10")
  case True
  then have "m div 10 = 0" "m mod 10 = m" by auto
  with assms True show ?thesis
    by (simp add: re_m_def pad2_def re_alt_def re_seq_def re_lit_as_range re_range_digit)
next
  case False
  with assms have "m div 10 = 1" "m mod 10 \<le> 2" "m mod 10 < 10" by presburger+
  then show ?thesis
    by (simp add: re_m_def pad2_def re_alt_def re_seq_def re_lit_as_range re_range_digit)
qed

lemma re_d_pad2:
  assumes "1 \<le> d" "d \<le> 31"
  shows "\<exists>rest. re_d (pad2 d @ r) = (pad2 d, r) # rest"
proof -
  consider "d < 10" | "10 \<le> d" "d < 30" | "30 \<le> d" by linarith
  then show ?thesis
  proof cases
    case 1
    then have "d div 10 = 0" "d mod 10 = d" by auto
    with assms 1 show ?thesis
      by (simp add: re_d_def pad2_def re_alt_def re_seq_def re_lit_as_range re_range_digit)
  next
    case 2
    then have "1 \<le> d div 10" "d div 10 \<le> 2" "d div 10 \<noteq> 3" "d mod 10 < 10" by presburger+
    then show ?thesis
      by (simp add: re_d_def pad2_def re_alt_def re_seq_def re_lit_as_range re_range_digit)
  next
    case 3
    with assms have "d div 10 = 3" "d mod 10 \<le> 1" "d mod 10 < 10" by presburger+
    then show ?thesis
      by (simp add: re_d_def pad2_def re_alt_def re_seq_def re_lit_as_range re_range_digit)
  qed
qed

lemma py_int_pad2: "n < 100 \<Longrightarrow> py_int (pad2 n) = n"
proof -
  assume "n < 100"
  then have "n div 10 < 10" "n mod 10 < 10" by auto
  then show ?thesis
    by (simp add: py_int_def pad2_def digit_char_not_space of_char_digit_char)
qed

lemma digits4: "10 * (10 * (10 * (n div 1000) + n div 100 mod 10) + n div 10 mod 10) + n mod 10 = (n::nat)"
proof -
  have e: "n div 10 div 10 = n div 100" "n div 100 div 10 = n div 1000"
    by (simp_all add: div_mult2_eq[symmetric])
  have a: "10 * (n div 1000) + n div 100 mod 10 = n div 100"
    using mult_div_mod_eq[of 10 "n div 100"] by (simp only: e)
  have b: "10 * (n div 100) + n div 10 mod 10 = n div 10"
    using mult_div_mod_eq[of 10 "n div 10"] by (simp only: e)
  have c: "10 * (n div 10) + n mod 10 = n"
    by (rule mult_div_mod_eq)
  show ?thesis by (simp only: a b c)
qed

lemma py_int_pad4: "n < 10000 \<Longrightarrow> py_int (pad4 n) = n"
proof -
  assume n: "n < 10000"
  then have "n div 1000 < 10" "n div 100 mod 10 < 10" "n div 10 mod 10 < 10" "n mod 10 < 10" by auto
  then have "py_int (pad4 n) = 10 * (10 * (10 * (n div 1000) + n div 100 mod 10) + n div 10 mod 10) + n mod 10"
    by (simp add: py_int_def pad4_def digit_char_not_space of_char_digit_char)
  then show ?thesis by (simp only: digits4)
qed

lemma decimal_small: "n < 10 \<Longrightarrow> decimal n = [digit_char n]"
  by (subst decimal.simps) simp

lemma decimal_step: "10 \<le> n \<Longrightarrow> decimal n = decimal (n div 10) @ [digit_char (n mod 10)]"
  by (subst decimal.simps) simp

lemma decimal_pad4: "1000 \<le> y \<Longrightarrow> y < 10000 \<Longrightarrow> decimal y = pad4 y"
proof -
  assume y: "1000 \<le> y" "y < 10000"
  have e: "y div 10 div 10 = y div 100" "y div 100 div 10 = y div 1000"
    by (simp_all add: div_mult2_eq[symmetric])
  have a: "decimal y = decimal (y div 10) @ [digit_char (y mod 10)]"
    using y by (intro decimal_step) simp
  have b: "decimal (y div 10) = decimal (y div 100) @ [digit_char (y div 10 mod 10)]"
    using y decimal_step[of "y div 10"] by (simp add: e)
  have c: "decimal (y div 100) = decimal (y div 1000) @ [digit_char (y div 100 mod 10)]"
    using y decimal_step[of "y div 100"] by (simp add: e)
  have d: "decimal (y div 1000) = [digit_char (y div 1000)]"
    using y by (intro decimal_small) simp
  show ?thesis by (simp add: a b c d pad4_def)
qed

lemma strftime_Y_pad4: "1 \<le> y \<Longrightarrow> y \<le> 9999 \<Longrightarrow> zp \<or> 1000 \<le> y \<Longrightarrow> strftime_Y zp y = pad4 y"
  by (auto simp: strftime_Y_def decimal_pad4)

lemma format_regex_ymd:
  assumes "y < 10000" "1 \<le> m" "m \<le> 12" "1 \<le> d" "d \<le> 31"
  shows "\<exists>rest. format_regex (pad4 y @ ''-'' @ pad2 m @ ''-'' @ pad2 d) = (pad4 y, pad2 m, pad2 d, []) # rest"
proof -
  obtain r1 where m: "re_m (pad2 m @ (''-'' @ pad2 d)) = (pad2 m, ''-'' @ pad2 d) # r1"
    using re_m_pad2[OF assms(2,3)] by blast
  obtain r2 where d: "re_d (pad2 d @ []) = (pad2 d, []) # r2"
    using re_d_pad2[OF assms(4,5)] by blast
  have y: "re_Y (pad4 y @ (''-'' @ pad2 m @ ''-'' @ pad2 d)) = [(pad4 y, ''-'' @ pad2 m @ ''-'' @ pad2 d)]"
    using assms(1) by (rule re_Y_pad4)
  show ?thesis
    using m d y by (simp add: format_regex_def re_lit_hyphen)
qed

lemma days_in_month_le: "days_in_month y m \<le> 31"
  by (simp add: days_in_month_def)

lemma strptime_pad:
  assumes "valid_date y m d"
  shows "strptime (pad4 y @ ''-'' @ pad2 m @ ''-'' @ pad2 d) = Inr (midnight y m d)"
proof -
  from assms have b: "y < 10000" "1 \<le> m" "m \<le> 12" "1 \<le> d" "d \<le> 31"
    using days_in_month_le[of y m] by (auto simp: valid_date_def)
  from format_regex_ymd[OF b] obtain rest where
    f: "format_regex (pad4 y @ ''-'' @ pad2 m @ ''-'' @ pad2 d) = (pad4 y, pad2 m, pad2 d, []) # rest"
    by blast
  from b have "py_int (pad4 y) = y" "py_int (pad2 m) = m" "py_int (pad2 d) = d"
    by (simp_all add: py_int_pad4 py_int_pad2)
  with f assms show ?thesis
    by (simp add: strptime_def)
qed

lemma strptime_strftime:
  assumes "valid_date (year dt) (month dt) (day dt)" "zp \<or> 1000 \<le> year dt"
  shows "strptime (strftime zp dt) = Inr (midnight (year dt) (month dt) (day dt))"
proof -
  from assms have "strftime_Y zp (year dt) = pad4 (year dt)"
    by (intro strftime_Y_pad4) (auto simp: valid_date_def)
  then show ?thesis
    using strptime_pad[OF assms(1)] by (simp add: strftime_def)
qed

lemma strftime_chars:
  assumes "valid_date (year dt) (month dt) (day dt)" "zp \<or> 1000 \<le> year dt"
  shows "list_all char_class (strftime zp dt)" "length (strftime zp dt) = 10"
    "last (strftime zp dt) \<noteq> newline" "strftime zp dt \<noteq> []"
proof -
  let ?y = "year dt" and ?m = "month dt" and ?d = "day dt"
  from assms have Y: "strftime_Y zp ?y = pad4 ?y"
    by (intro strftime_Y_pad4) (auto simp: valid_date_def)
  from assms(1) have "?y < 10000" "?m \<le> 12" "?d \<le> 31"
    using days_in_month_le[of ?y ?m] by (auto simp: valid_date_def)
  then have lt: "?y div 1000 < 10" "?y div 100 mod 10 < 10" "?y div 10 mod 10 < 10" "?y mod 10 < 10"
    "?m div 10 < 10" "?m mod 10 < 10" "?d div 10 < 10" "?d mod 10 < 10" by auto
  have h: "char_class CHR ''-''" by (simp add: char_class_def)
  show "list_all char_class (strftime zp dt)"
    using lt by (simp add: strftime_def Y pad4_def pad2_def char_class_digit_char h)
  show "length (strftime zp dt) = 10"
    by (simp add: strftime_def Y pad4_def pad2_def)
  show "last (strftime zp dt) \<noteq> newline"
    using lt by (simp add: strftime_def Y pad4_def pad2_def digit_char_not_newline)
  show "strftime zp dt \<noteq> []"
    by (simp add: strftime_def Y pad4_def pad2_def)
qed

section \<open>The claims about names and retention\<close>

lemma lookahead_long: "length s > 3 \<Longrightarrow> lookahead s = (hd s \<in> {CHR ''-'', CHR ''_'', CHR ''+''})"
  by (auto simp: lookahead_iff)

text \<open>
  Claim C4 says that \<open>_valid_index_prefix\<close> accepts exactly the strings of 1 to 255
  characters that contain none of the listed characters, are not \<open>.\<close> or \<open>..\<close> and
  do not start with \<open>-\<close>, \<open>_\<close> or \<open>+\<close>. The pattern ends in \<open>$\<close>, which also matches
  before a final newline, and the class admits the newline: every string of 255
  admitted characters that the lookahead lets pass is still accepted after a newline
  has been appended, at 256 characters.
\<close>

theorem valid_index_prefix_accepts_256:
  assumes "\<not> lookahead s" "list_all char_class s" "length s = 255"
  shows "valid_index_prefix (s @ [newline]) \<and> length (s @ [newline]) = 256"
proof -
  from assms(3) have ne: "s \<noteq> []" by auto
  have "lookahead (s @ [newline]) = lookahead s"
    using assms(3) ne by (simp add: lookahead_long)
  then show ?thesis
    using assms by (simp add: valid_index_prefix_iff char_class_newline)
qed

text \<open>The failing input of C4: 255 times \<open>a\<close> and a newline.\<close>

theorem valid_index_prefix_accepts_256_witness:
  "valid_index_prefix (replicate 255 (CHR ''a'') @ [newline])
   \<and> length (replicate 255 (CHR ''a'') @ [newline]) = 256"
proof -
  have a: "\<not> lookahead (replicate 255 (CHR ''a''))"
    by (simp add: lookahead_long)
  have b: "list_all char_class (replicate 255 (CHR ''a''))"
    by (simp add: list_all_iff char_class_def)
  show ?thesis
    using valid_index_prefix_accepts_256[OF a b] by simp
qed

lemma valid_index_prefix_rejects_dot_newline:
  "\<not> valid_index_prefix (''.'' @ [newline])" "\<not> valid_index_prefix (''..'' @ [newline])"
  by (simp_all add: valid_index_prefix_iff lookahead_iff)

lemma valid_index_prefix_examples:
  "valid_index_prefix ''logentry_''"
  "\<not> valid_index_prefix ''.''" "\<not> valid_index_prefix ''..''" "\<not> valid_index_prefix ''''"
  by code_simp+

lemma valid_index_prefix_rejects:
  assumes "c \<in> set s"
    "(65 \<le> (of_char c :: nat) \<and> (of_char c :: nat) \<le> 90)
     \<or> c \<in> {CHR ''#'', CHR '':'', CHR ''/'', CHR '' '', CHR ''*'', CHR ''?'', CHR 0x22, CHR ''<'',
              CHR ''>'', CHR ''|'', CHR '',''}"
  shows "\<not> valid_index_prefix s"
proof -
  from assms(2) have "\<not> char_class c" by (auto simp: char_class_def)
  with assms(1) have "\<not> list_all char_class s" by (auto simp: list_all_iff)
  then show ?thesis by (simp add: valid_index_prefix_iff)
qed

lemma strptime_examples:
  "strptime ''2024-1-5'' = Inr (midnight 2024 1 5)"
  "strptime ''2024-03-08'' = Inr (midnight 2024 3 8)"
  "strptime ''2024-03-09'' = Inr (midnight 2024 3 9)"
  "strptime ''2024-03-10'' = Inr (midnight 2024 3 10)"
  "strptime ''2024-13-40'' = Inl ValueError"
  "strptime ''2024-01-01extra'' = Inl ValueError"
  by code_simp+

lemma char_class_examples:
  "list_all char_class ''2024-1-5''" "list_all char_class ''2024-03-08''"
  "list_all char_class ''2024-03-09''" "list_all char_class ''2024-03-10''"
  "list_all char_class ''2024-13-40''" "list_all char_class ''2024-01-01extra''"
  by code_simp+

text \<open>
  Claim C3 says that \<open>_valid_index_name\<close> accepts \<open>prefix + s\<close> only when \<open>s\<close> is a
  date in the zero-padded form \<open>YYYY-MM-DD\<close>. \<open>strptime\<close> also reads a month and a day
  of one digit: under every valid prefix of at most 247 characters the name with the
  suffix \<open>2024-1-5\<close> is accepted.
\<close>

theorem valid_index_name_accepts_unpadded:
  assumes "valid_index_prefix p" "length p \<le> 247"
  shows "valid_index_name p (p @ ''2024-1-5'') = Inr True"
proof -
  have "valid_index_name p (p @ ''2024-1-5'') = Inr (isl (strptime ''2024-1-5'') = False)"
    using assms by (intro valid_index_name_append char_class_examples) (simp_all add: newline_def)
  then show ?thesis by (simp add: strptime_examples)
qed

text \<open>The failing input of C3: the default prefix and the suffix \<open>2024-1-5\<close>.\<close>

theorem valid_index_name_accepts_unpadded_witness:
  "valid_index_name ''logentry_'' ''logentry_2024-1-5'' = Inr True"
  using valid_index_name_accepts_unpadded[of "''logentry_''"]
  by (simp add: valid_index_prefix_examples)

lemma valid_index_name_rejects_examples:
  assumes "valid_index_prefix p" "length p \<le> 240"
  shows "valid_index_name p (p @ ''2024-13-40'') = Inr False"
    and "valid_index_name p (p @ ''2024-01-01extra'') = Inr False"
proof -
  have "valid_index_name p (p @ ''2024-13-40'') = Inr (isl (strptime ''2024-13-40'') = False)"
    using assms by (intro valid_index_name_append char_class_examples) (simp_all add: newline_def)
  then show "valid_index_name p (p @ ''2024-13-40'') = Inr False"
    by (simp add: strptime_examples)
  have "valid_index_name p (p @ ''2024-01-01extra'')
          = Inr (isl (strptime ''2024-01-01extra'') = False)"
    using assms by (intro valid_index_name_append char_class_examples) (simp_all add: newline_def)
  then show "valid_index_name p (p @ ''2024-01-01extra'') = Inr False"
    by (simp add: strptime_examples)
qed


lemma datetime_us_examples:
  "datetime_us (midnight 2024 3 8) = 63845539200000000"
  "datetime_us (midnight 2024 3 9) = 63845625600000000"
  "datetime_us (midnight 2024 3 10) = 63845712000000000"
  by code_simp+

lemma can_delete_index_valid:
  assumes "valid_index_name p index = Inr True" "strptime (drop (length p) index) = Inr dt"
  shows "can_delete_index p index cutoff =
           Inr (datetime_us dt < datetime_us cutoff
                \<and> datetime_us cutoff - datetime_us dt \<ge> 86400000000)"
  using assms by (simp add: can_delete_index_def datetime_lt_def datetime_sub_def timedelta_days_def)

text \<open>
  Claim C1, as amended. With the cutoff at midnight of 2024-03-10, under every valid
  prefix of at most 245 characters: the index of 2024-03-08 can be deleted, the index
  of 2024-03-09 can be deleted as well (the claim says it cannot), the index of
  2024-03-10 cannot; and in general a valid index whose date lies exactly one day
  before the cutoff can be deleted.
\<close>

theorem can_delete_index_boundary:
  assumes "valid_index_prefix p" "length p \<le> 245"
  shows "can_delete_index p (p @ ''2024-03-08'') (midnight 2024 3 10) = Inr True
       \<and> can_delete_index p (p @ ''2024-03-09'') (midnight 2024 3 10) = Inr True
       \<and> can_delete_index p (p @ ''2024-03-10'') (midnight 2024 3 10) = Inr False
       \<and> (\<forall>index dt cutoff.
             valid_index_name p index = Inr True
             \<and> strptime (drop (length p) index) = Inr dt
             \<and> datetime_sub cutoff dt = timedelta_days 1
             \<longrightarrow> can_delete_index p index cutoff = Inr True)"
proof -
  have v: "valid_index_name p (p @ t) = Inr True"
    if "list_all char_class t" "length t = 10" "last t \<noteq> newline" "strptime t = Inr dt" for t dt
  proof -
    have "valid_index_name p (p @ t) = Inr (isl (strptime t) = False)"
      using assms that by (intro valid_index_name_append) auto
    then show ?thesis using that by simp
  qed
  have a: "can_delete_index p (p @ ''2024-03-08'') (midnight 2024 3 10) = Inr True"
    using v[of "''2024-03-08''", OF char_class_examples(2) _ _ strptime_examples(2)]
    by (simp add: can_delete_index_valid[where dt = "midnight 2024 3 8"] strptime_examples
        datetime_us_examples newline_def)
  have b: "can_delete_index p (p @ ''2024-03-09'') (midnight 2024 3 10) = Inr True"
    using v[of "''2024-03-09''", OF char_class_examples(3) _ _ strptime_examples(3)]
    by (simp add: can_delete_index_valid[where dt = "midnight 2024 3 9"] strptime_examples
        datetime_us_examples newline_def)
  have c: "can_delete_index p (p @ ''2024-03-10'') (midnight 2024 3 10) = Inr False"
    using v[of "''2024-03-10''", OF char_class_examples(4) _ _ strptime_examples(4)]
    by (simp add: can_delete_index_valid[where dt = "midnight 2024 3 10"] strptime_examples
        datetime_us_examples newline_def)
  have d: "can_delete_index p index cutoff = Inr True"
    if "valid_index_name p index = Inr True" "strptime (drop (length p) index) = Inr dt"
      "datetime_sub cutoff dt = timedelta_days 1" for index dt cutoff
    using that by (simp add: can_delete_index_valid[where dt = dt] datetime_sub_def timedelta_days_def)
  show ?thesis using a b c d by blast
qed

text \<open>The theorem of C1 at the default prefix.\<close>

theorem can_delete_index_boundary_witness:
  "can_delete_index ''logentry_'' ''logentry_2024-03-08'' (midnight 2024 3 10) = Inr True
   \<and> can_delete_index ''logentry_'' ''logentry_2024-03-09'' (midnight 2024 3 10) = Inr True
   \<and> can_delete_index ''logentry_'' ''logentry_2024-03-10'' (midnight 2024 3 10) = Inr False
   \<and> valid_index_name ''logentry_'' ''logentry_2024-03-09'' = Inr True
   \<and> datetime_sub (midnight 2024 3 10) (midnight 2024 3 9) = timedelta_days 1"
proof -
  have p: "valid_index_prefix ''logentry_''" "length ''logentry_'' \<le> 245"
    by (simp_all add: valid_index_prefix_examples)
  have v: "valid_index_name ''logentry_'' ''logentry_2024-03-09'' = Inr True"
    by code_simp
  have s: "datetime_sub (midnight 2024 3 10) (midnight 2024 3 9) = timedelta_days 1"
    by (simp add: datetime_sub_def timedelta_days_def datetime_us_examples)
  show ?thesis
    using can_delete_index_boundary[OF p] v s by simp
qed

text \<open>
  Claim C1 as stated fails: the index dated one day before the cutoff is reported as
  deletable.
\<close>

theorem can_delete_index_boundary_counterexample:
  "can_delete_index ''logentry_'' ''logentry_2024-03-09'' (midnight 2024 3 10) = Inr True"
  by code_simp

text \<open>
  Claim C2, as amended. For every prefix that \<open>_valid_index_prefix\<close> accepts and that
  leaves room for the date (at most 245 characters), and every day of the calendar
  whose year \<open>strftime\<close> prints with four digits (every year from 1000 on, and every
  year where the platform pads \<open>%Y\<close> with zeros), the name built by \<open>index_name\<close>
  passes \<open>_valid_index_name\<close>, and parsing what follows the prefix gives the day back.
\<close>

theorem index_name_roundtrip:
  assumes "valid_index_prefix p" "length p \<le> 245" "valid_date y m d" "zero_pad \<or> 1000 \<le> y"
  shows "valid_index_name p (index_name zero_pad p (midnight y m d)) = Inr True
       \<and> strptime (drop (length p) (index_name zero_pad p (midnight y m d))) = Inr (midnight y m d)"
proof -
  let ?t = "strftime zero_pad (midnight y m d)"
  have vd: "valid_date (year (midnight y m d)) (month (midnight y m d)) (day (midnight y m d))"
    "zero_pad \<or> 1000 \<le> year (midnight y m d)"
    using assms(3,4) by (simp_all add: midnight_def)
  have r: "strptime ?t = Inr (midnight y m d)"
    using strptime_strftime[OF vd] by (simp add: midnight_def)
  have "valid_index_name p (p @ ?t) = Inr (isl (strptime ?t) = False)"
    using assms(1,2) strftime_chars[OF vd] by (intro valid_index_name_append) auto
  then show ?thesis
    using r by (simp add: index_name_def)
qed

text \<open>The theorem of C2 at the default prefix and 2024-03-09.\<close>

theorem index_name_roundtrip_witness:
  "valid_index_name ''logentry_'' (index_name False ''logentry_'' (midnight 2024 3 9)) = Inr True
   \<and> strptime (drop (length ''logentry_'') (index_name False ''logentry_'' (midnight 2024 3 9)))
       = Inr (midnight 2024 3 9)
   \<and> index_name False ''logentry_'' (midnight 2024 3 9) = ''logentry_2024-03-09''"
proof -
  have p: "valid_index_prefix ''logentry_''" "length ''logentry_'' \<le> 245"
    by (simp_all add: valid_index_prefix_examples)
  have d: "valid_date 2024 3 9" "False \<or> (1000::nat) \<le> 2024"
    by (simp_all add: valid_date_def days_in_month_def)
  have n: "index_name False ''logentry_'' (midnight 2024 3 9) = ''logentry_2024-03-09''"
    by code_simp
  show ?thesis
    using index_name_roundtrip[OF p d] n by simp
qed

text \<open>
  Claim C2 as stated fails: a prefix of 246 characters is accepted by
  \<open>_valid_index_prefix\<close>, and the name built from it for 2024-01-01 is 256 characters
  long and is rejected by \<open>_valid_index_name\<close>.
\<close>

theorem index_name_roundtrip_counterexample:
  "valid_index_prefix (replicate 246 (CHR ''a'')) \<and> valid_date 2024 1 1
   \<and> valid_index_name (replicate 246 (CHR ''a''))
        (index_name True (replicate 246 (CHR ''a'')) (midnight 2024 1 1)) = Inr False
   \<and> valid_index_name (replicate 246 (CHR ''a''))
        (index_name False (replicate 246 (CHR ''a'')) (midnight 2024 1 1)) = Inr False"
  by code_simp

end
